theory Spec2Isabelle
  imports
    Complex_Main
    "HOL-Library.Char_ord"
    "HOL-Library.List_Lexorder"
    "HOL-Library.Multiset"
    "HOL-Library.Product_Lexorder"
    "HOL-Library.Sublist"
begin

text \<open>
  A model of the short-video analytics dashboard: the \<open>DataProcessor\<close> of
  \<open>src/data_processor.py\<close> (loading, the derived columns, the summary and the two grouped
  analyses) and the ranking of \<open>src/dashboard.py\<close>. The calls into pandas are modelled by
  what pandas documents for them; rendering is left out.
\<close>

section \<open>Numbers\<close>

text \<open>
  The integer columns of the table (\<open>views\<close>, \<open>likes\<close>, \<open>comments\<close>, \<open>shares\<close>)
  are modelled as \<open>int\<close>. A float64 value is modelled by \<open>f64\<close>: a finite value is an
  exact rational (no rounding error, no overflow, no signed zero), and the three
  non-finite values of IEEE 754 are kept, because the source divides without a guard and
  numpy returns \<open>inf\<close>, \<open>-inf\<close> or \<open>nan\<close> there instead of raising.
\<close>

datatype f64 = Fin rat | PInf | NInf | NaN

fun fadd :: "f64 \<Rightarrow> f64 \<Rightarrow> f64" where
  "fadd (Fin a) (Fin b) = Fin (a + b)"
| "fadd NaN _ = NaN"
| "fadd _ NaN = NaN"
| "fadd PInf NInf = NaN"
| "fadd NInf PInf = NaN"
| "fadd PInf _ = PInf"
| "fadd _ PInf = PInf"
| "fadd NInf _ = NInf"
| "fadd _ NInf = NInf"

fun fmul :: "f64 \<Rightarrow> f64 \<Rightarrow> f64" where
  "fmul (Fin a) (Fin b) = Fin (a * b)"
| "fmul NaN _ = NaN"
| "fmul _ NaN = NaN"
| "fmul (Fin a) PInf = (if 0 < a then PInf else if a < 0 then NInf else NaN)"
| "fmul (Fin a) NInf = (if 0 < a then NInf else if a < 0 then PInf else NaN)"
| "fmul PInf (Fin b) = (if 0 < b then PInf else if b < 0 then NInf else NaN)"
| "fmul NInf (Fin b) = (if 0 < b then NInf else if b < 0 then PInf else NaN)"
| "fmul PInf PInf = PInf"
| "fmul PInf NInf = NInf"
| "fmul NInf PInf = NInf"
| "fmul NInf NInf = PInf"

fun fdiv :: "f64 \<Rightarrow> f64 \<Rightarrow> f64" where
  "fdiv (Fin a) (Fin b) =
     (if b = 0 then (if 0 < a then PInf else if a < 0 then NInf else NaN)
      else Fin (a / b))"
| "fdiv NaN _ = NaN"
| "fdiv _ NaN = NaN"
| "fdiv (Fin a) PInf = Fin 0"
| "fdiv (Fin a) NInf = Fin 0"
| "fdiv PInf (Fin b) = (if b < 0 then NInf else PInf)"
| "fdiv NInf (Fin b) = (if b < 0 then PInf else NInf)"
| "fdiv PInf PInf = NaN"
| "fdiv PInf NInf = NaN"
| "fdiv NInf PInf = NaN"
| "fdiv NInf NInf = NaN"

text \<open>The comparison \<open>x > y\<close> of floats: false whenever an operand is \<open>nan\<close>.\<close>

fun fgt :: "f64 \<Rightarrow> f64 \<Rightarrow> bool" where
  "fgt (Fin a) (Fin b) = (b < a)"
| "fgt NaN _ = False"
| "fgt _ NaN = False"
| "fgt PInf PInf = False"
| "fgt PInf _ = True"
| "fgt _ PInf = False"
| "fgt NInf _ = False"
| "fgt _ NInf = True"

text \<open>The integer columns are int64: a sum of integers is taken modulo 2^64 into the
  signed range (\<open>wrap64\<close>). An integer operand of a float operation is converted
  (\<open>of_int64\<close>), and \<open>a / b\<close> on two integers is numpy's \<open>true_divide\<close>, which yields a
  float and never raises.\<close>

definition wrap64 :: "int \<Rightarrow> int" where
  "wrap64 i = (i + 9223372036854775808) mod 18446744073709551616 - 9223372036854775808"

definition of_int64 :: "int \<Rightarrow> f64" where
  "of_int64 i = Fin (of_int i)"

definition true_divide :: "int \<Rightarrow> int \<Rightarrow> f64" where
  "true_divide a b = fdiv (of_int64 a) (of_int64 b)"

text \<open>\<open>.round(2)\<close>: numpy rounds the value scaled by 100 to the nearest integer, halves to
  the even neighbour, and scales back; non-finite values are unchanged. The model rounds
  the exact value; a float64 that stands for a value exactly halfway between two
  hundredths may lie on either side of it.\<close>

definition round_half_even :: "rat \<Rightarrow> int" where
  "round_half_even q =
     (let f = \<lfloor>q\<rfloor>; d = q - of_int f
      in if d < 1 / 2 then f else if 1 / 2 < d then f + 1
         else if even f then f else f + 1)"

fun round2 :: "f64 \<Rightarrow> f64" where
  "round2 (Fin q) = Fin (of_int (round_half_even (q * 100)) / 100)"
| "round2 x = x"

definition is_finite :: "f64 \<Rightarrow> bool" where
  "is_finite x = (case x of Fin q \<Rightarrow> True | _ \<Rightarrow> False)"

section \<open>Records of the table\<close>

text \<open>
  \<open>upload_time\<close> is text after \<open>read_csv\<close> and a timestamp after \<open>to_datetime\<close>, so the
  row type is parametric in it. The other columns have the types of the input schema.
\<close>

record timestamp =
  year :: int
  month :: int
  day :: int
  hour :: int
  minute :: int
  second :: int

record 't video_row =
  video_id :: string
  upload_time :: 't
  content_type :: string
  duration_sec :: int
  views :: int
  likes :: int
  comments :: int
  shares :: int
  completion_rate :: rat
  creator_id :: string

record derived_row = "timestamp video_row" +
  engagement_rate :: f64
  is_hot :: bool
  upload_hour :: int
  time_period :: string

section \<open>DataProcessor: per-record metrics\<close>

text \<open>The five labels of \<open>_categorize_time_period\<close>, as the UTF-8 bytes of the source's
  string literals (two CJK characters, then the ASCII range in parentheses).\<close>

definition label_morning :: string where
  "label_morning = [CHR 0xE6, CHR 0x97, CHR 0xA9, CHR 0xE6, CHR 0x99, CHR 0xA8] @ '' (6-12)''"

definition label_midday :: string where
  "label_midday = [CHR 0xE4, CHR 0xB8, CHR 0xAD, CHR 0xE5, CHR 0x8D, CHR 0x88] @ '' (12-14)''"

definition label_afternoon :: string where
  "label_afternoon = [CHR 0xE4, CHR 0xB8, CHR 0x8B, CHR 0xE5, CHR 0x8D, CHR 0x88] @ '' (14-18)''"

definition label_evening :: string where
  "label_evening = [CHR 0xE6, CHR 0x99, CHR 0x9A, CHR 0xE4, CHR 0xB8, CHR 0x8A] @ '' (18-22)''"

definition label_late_night :: string where
  "label_late_night = [CHR 0xE6, CHR 0xB7, CHR 0xB1, CHR 0xE5, CHR 0xA4, CHR 0x9C] @ '' (22-6)''"

definition categorize_time_period :: "int \<Rightarrow> string" where
  "categorize_time_period h =
     (if 6 \<le> h \<and> h < 12 then label_morning
      else if 12 \<le> h \<and> h < 14 then label_midday
      else if 14 \<le> h \<and> h < 18 then label_afternoon
      else if 18 \<le> h \<and> h < 22 then label_evening
      else label_late_night)"

text \<open>Lines 30 to 37 of \<open>calculate_metrics\<close>, for one row: the four column assignments
  are element-wise, so the frame's new columns are this function mapped over its rows.\<close>

definition row_engagement_rate :: "'t video_row \<Rightarrow> f64" where
  "row_engagement_rate r =
     round2 (fmul (true_divide (wrap64 (likes r + comments r + shares r)) (views r))
               (of_int64 100))"

definition row_is_hot :: "f64 \<Rightarrow> int \<Rightarrow> bool" where
  "row_is_hot er v = (fgt er (of_int64 5) \<and> 20000 < v)"

definition derive_row :: "timestamp video_row \<Rightarrow> derived_row" where
  "derive_row r =
     \<lparr>video_id = video_id r, upload_time = upload_time r, content_type = content_type r,
      duration_sec = duration_sec r, views = views r, likes = likes r,
      comments = comments r, shares = shares r, completion_rate = completion_rate r,
      creator_id = creator_id r,
      engagement_rate = row_engagement_rate r,
      is_hot = row_is_hot (row_engagement_rate r) (views r),
      upload_hour = hour (upload_time r),
      time_period = categorize_time_period (hour (upload_time r))\<rparr>"

definition derive_rows :: "timestamp video_row list \<Rightarrow> derived_row list" where
  "derive_rows rows = map derive_row rows"

section \<open>DataProcessor: aggregates\<close>

text \<open>Sums and means as pandas computes them: \<open>Series.mean\<close> skips \<open>nan\<close> and is \<open>nan\<close>
  when nothing is left; the mean of an integer column is taken in floats, the quotient
  of its sum by its length; the sum of an integer column is an int64; the sum of a
  boolean column counts its true entries.\<close>

primrec fsum :: "f64 list \<Rightarrow> f64" where
  "fsum [] = Fin 0"
| "fsum (x # xs) = fadd x (fsum xs)"

definition nanmean :: "f64 list \<Rightarrow> f64" where
  "nanmean xs =
     (let ys = filter (\<lambda>x. x \<noteq> NaN) xs
      in if ys = [] then NaN else fdiv (fsum ys) (of_int64 (int (length ys))))"

definition mean_int :: "int list \<Rightarrow> f64" where
  "mean_int vs = (if vs = [] then NaN else true_divide (sum_list vs) (int (length vs)))"

definition count_true :: "bool list \<Rightarrow> int" where
  "count_true bs = int (length (filter (\<lambda>b. b) bs))"

record summary_metrics =
  total_videos :: int
  total_views :: int
  avg_engagement_rate :: f64
  hot_videos_count :: int
  hot_videos_rate :: f64

definition get_summary_metrics :: "derived_row list \<Rightarrow> summary_metrics" where
  "get_summary_metrics df =
     (let total = int (length df);
          hot_count = count_true (map is_hot df)
      in \<lparr>total_videos = total,
          total_views = wrap64 (sum_list (map views df)),
          avg_engagement_rate = nanmean (map engagement_rate df),
          hot_videos_count = hot_count,
          hot_videos_rate = round2 (fmul (true_divide hot_count total) (of_int64 100))\<rparr>)"

text \<open>
  The frames that the two analyses return have columns of their own, so a row of such a
  frame is a list of (column name, cell) pairs in column order. \<open>groupby\<close> iterates the
  distinct keys in ascending order (strings compare by code point, which is the byte
  order of their UTF-8 encoding); every group is non-empty.
\<close>

datatype cell = SCell string | ICell int | FCell f64 | TCell timestamp

type_synonym stats_row = "(string \<times> cell) list"

definition group_keys :: "('a \<Rightarrow> string) \<Rightarrow> 'a list \<Rightarrow> string list" where
  "group_keys key df = sort (remdups (map key df))"

definition group_rows :: "('a \<Rightarrow> string) \<Rightarrow> string \<Rightarrow> 'a list \<Rightarrow> 'a list" where
  "group_rows key k df = filter (\<lambda>r. key r = k) df"

text \<open>Lines 72 to 84: the aggregation of one \<open>content_type\<close> group, rounded, with the
  columns renamed and \<open>hot_rate\<close> appended.\<close>

definition content_type_row :: "string \<Rightarrow> derived_row list \<Rightarrow> stats_row" where
  "content_type_row k g =
     (let video_count = int (length g);
          hot_videos = count_true (map is_hot g)
      in [(''content_type'', SCell k),
          (''views'', FCell (round2 (mean_int (map views g)))),
          (''engagement_rate'', FCell (round2 (nanmean (map engagement_rate g)))),
          (''video_count'', ICell video_count),
          (''hot_videos'', ICell hot_videos),
          (''hot_rate'',
             FCell (round2 (fmul (true_divide hot_videos video_count) (of_int64 100))))])"

definition content_stats :: "derived_row list \<Rightarrow> stats_row list" where
  "content_stats df =
     map (\<lambda>k. content_type_row k (group_rows content_type k df)) (group_keys content_type df)"

text \<open>Lines 90 to 98: the aggregation of one \<open>time_period\<close> group.\<close>

definition time_period_row :: "string \<Rightarrow> derived_row list \<Rightarrow> stats_row" where
  "time_period_row k g =
     [(''time_period'', SCell k),
      (''views'', FCell (round2 (mean_int (map views g)))),
      (''engagement_rate'', FCell (round2 (nanmean (map engagement_rate g)))),
      (''video_count'', ICell (int (length g)))]"

definition time_stats :: "derived_row list \<Rightarrow> stats_row list" where
  "time_stats df =
     map (\<lambda>k. time_period_row k (group_rows time_period k df)) (group_keys time_period df)"

subsection \<open>sort_values\<close>

text \<open>
  \<open>sort_values(c, ascending=False)\<close> computes an indexer from the key column \<open>c\<close> and
  takes the rows in that order. pandas computes it in \<open>nargsort\<close>: the \<open>nan\<close> keys are
  set aside, the other keys are reversed when \<open>ascending\<close> is false, numpy's \<open>argsort\<close>
  sorts them ascending, the result is read backwards when \<open>ascending\<close> is false, and the
  \<open>nan\<close> rows come last. The source passes no \<open>kind\<close>, so numpy sorts with its default
  \<open>quicksort\<close>, which is documented as not stable: \<open>argsort\<close> returns the positions of
  the keys in ascending order (\<open>nan\<close> greatest), and which of two equal keys comes first
  is left to numpy. So \<open>argsort\<close> is a parameter of the model, and \<open>ascending_argsort\<close>
  is what every such function satisfies.
\<close>

text \<open>The exceptions of the modelled code. \<open>DanglingReference\<close> is not one of Python's:
  it is the result of reading an address that holds no frame, which no run from a world
  built by \<open>init\<close>, \<open>load_data\<close> and the queries reaches.\<close>

datatype py_error = KeyError | AttributeError | DanglingReference

fun asc_key :: "f64 \<Rightarrow> nat \<times> rat" where
  "asc_key NInf = (0, 0)"
| "asc_key (Fin q) = (1, q)"
| "asc_key PInf = (2, 0)"
| "asc_key NaN = (3, 0)"

definition ascending_argsort :: "(f64 list \<Rightarrow> nat list) \<Rightarrow> bool" where
  "ascending_argsort argsort =
     (\<forall>vs. mset (argsort vs) = mset [0..<length vs] \<and>
           sorted_wrt (\<lambda>i j. asc_key (vs ! i) \<le> asc_key (vs ! j)) (argsort vs))"

definition nargsort :: "(f64 list \<Rightarrow> nat list) \<Rightarrow> bool \<Rightarrow> f64 list \<Rightarrow> nat list" where
  "nargsort argsort ascending items =
     (let idx = [0..<length items];
          non_nan_idx = filter (\<lambda>i. items ! i \<noteq> NaN) idx;
          nan_idx = filter (\<lambda>i. items ! i = NaN) idx;
          non_nans = map (\<lambda>i. items ! i) non_nan_idx;
          vals = (if ascending then non_nans else rev non_nans);
          ids = (if ascending then non_nan_idx else rev non_nan_idx);
          indexer = map (\<lambda>p. ids ! p) (argsort vals)
      in (if ascending then indexer else rev indexer) @ nan_idx)"

definition float_cell :: "cell option \<Rightarrow> f64 option" where
  "float_cell c = (case c of Some (FCell x) \<Rightarrow> Some x | _ \<Rightarrow> None)"

definition float_column :: "string \<Rightarrow> stats_row list \<Rightarrow> f64 list option" where
  "float_column c rows = those (map (\<lambda>row. float_cell (map_of row c)) rows)"

definition sort_values ::
  "(f64 list \<Rightarrow> nat list) \<Rightarrow> string \<Rightarrow> bool \<Rightarrow> stats_row list \<Rightarrow>
   py_error + stats_row list" where
  "sort_values argsort c ascending rows =
     (case float_column c rows of
        None \<Rightarrow> Inl KeyError
      | Some ks \<Rightarrow> Inr (map (\<lambda>i. rows ! i) (nargsort argsort ascending ks)))"

definition get_content_type_analysis ::
  "(f64 list \<Rightarrow> nat list) \<Rightarrow> derived_row list \<Rightarrow> py_error + stats_row list" where
  "get_content_type_analysis argsort df =
     sort_values argsort ''engagement_rate'' False (content_stats df)"

definition get_time_period_analysis ::
  "(f64 list \<Rightarrow> nat list) \<Rightarrow> derived_row list \<Rightarrow> py_error + stats_row list" where
  "get_time_period_analysis argsort df =
     sort_values argsort ''engagement_rate'' False (time_stats df)"

text \<open>Two functions that numpy's \<open>argsort\<close> could be: one keeps equal keys in their
  order (a stable sort), the other puts the later of two equal keys first.\<close>

definition stable_argsort :: "f64 list \<Rightarrow> nat list" where
  "stable_argsort vs = sort_key (\<lambda>i. asc_key (vs ! i)) [0..<length vs]"

definition reversing_argsort :: "f64 list \<Rightarrow> nat list" where
  "reversing_argsort vs = sort_key (\<lambda>i. asc_key (vs ! i)) (rev [0..<length vs])"

text \<open>The order of a descending column and of the groups in an analysis: \<open>sorts_before a b\<close>
  holds when \<open>a\<close> may stand before \<open>b\<close> in a column that descends with \<open>nan\<close> last, and
  \<open>ties_in_group_order\<close> holds when any two rows with the same \<open>engagement_rate\<close> stand
  in the result as they do in the grouped frame.\<close>

definition sorts_before :: "f64 \<Rightarrow> f64 \<Rightarrow> bool" where
  "sorts_before a b = (b = NaN \<or> (a \<noteq> NaN \<and> \<not> fgt b a))"

definition ties_in_group_order :: "stats_row list \<Rightarrow> stats_row list \<Rightarrow> bool" where
  "ties_in_group_order grouped result =
     (\<forall>x \<in> set (map (\<lambda>row. map_of row ''engagement_rate'') grouped).
        filter (\<lambda>row. map_of row ''engagement_rate'' = x) result =
        filter (\<lambda>row. map_of row ''engagement_rate'' = x) grouped)"

section \<open>Dashboard: the ranking\<close>







section \<open>DataProcessor: the object and its frames\<close>

text \<open>
  \<open>self.df\<close> is a reference to a DataFrame, and \<open>calculate_metrics\<close> assigns columns to a
  DataFrame in place, so frames live in a store and are named by their address (their
  index in the store; a new frame is appended). A frame is the list of its rows at one
  of three stages: as \<open>read_csv\<close> returned it, with \<open>upload_time\<close> parsed, and with the
  derived columns. \<open>read_csv\<close> (the file system and the CSV parser: \<open>None\<close> when it
  raises) and \<open>to_datetime\<close> (\<open>None\<close> where it raises) are parameters.
\<close>

datatype frame =
    RawFrame "string video_row list"
  | ParsedFrame "timestamp video_row list"
  | MetricsFrame "derived_row list"

type_synonym addr = nat

record world =
  heap :: "frame list"
  data_path :: string
  self_df :: "addr option"

definition init :: "string \<Rightarrow> frame list \<Rightarrow> world" where
  "init path h = \<lparr>heap = h, data_path = path, self_df = None\<rparr>"

definition alloc :: "frame \<Rightarrow> frame list \<Rightarrow> addr \<times> frame list" where
  "alloc f h = (length h, h @ [f])"

definition lookup :: "frame list \<Rightarrow> addr \<Rightarrow> frame option" where
  "lookup h a = (if a < length h then Some (h ! a) else None)"

definition with_upload_time :: "'s video_row \<Rightarrow> 't \<Rightarrow> 't video_row" where
  "with_upload_time r t =
     \<lparr>video_id = video_id r, upload_time = t, content_type = content_type r,
      duration_sec = duration_sec r, views = views r, likes = likes r,
      comments = comments r, shares = shares r, completion_rate = completion_rate r,
      creator_id = creator_id r\<rparr>"

definition load_data ::
  "(string \<Rightarrow> string video_row list option) \<Rightarrow> (string \<Rightarrow> timestamp option) \<Rightarrow>
   world \<Rightarrow> bool \<times> world" where
  "load_data read_csv to_datetime w =
     (case read_csv (data_path w) of
        None \<Rightarrow> (False, w)
      | Some rows \<Rightarrow>
          (let (a, h) = alloc (RawFrame rows) (heap w);
               w1 = w\<lparr>heap := h, self_df := Some a\<rparr>
           in case those (map (\<lambda>r. to_datetime (upload_time r)) rows) of
                None \<Rightarrow> (False, w1)
              | Some ts \<Rightarrow>
                  (True, w1\<lparr>heap := h[a := ParsedFrame (map2 with_upload_time rows ts)]\<rparr>)))"

text \<open>\<open>calculate_metrics\<close>: \<open>None\<close> when nothing is loaded; otherwise the copy of
  \<open>self.df\<close> receives the derived columns and is returned. On a frame whose
  \<open>upload_time\<close> is still text the \<open>.dt\<close> accessor raises, and the copy is dropped.\<close>

definition calculate_metrics :: "world \<Rightarrow> (py_error + addr option) \<times> world" where
  "calculate_metrics w =
     (case self_df w of
        None \<Rightarrow> (Inr None, w)
      | Some a \<Rightarrow>
          (case lookup (heap w) a of
             None \<Rightarrow> (Inl DanglingReference, w)
           | Some f \<Rightarrow>
               (let (c, h) = alloc f (heap w)
                in case f of
                     RawFrame rows \<Rightarrow> (Inl AttributeError, w\<lparr>heap := h\<rparr>)
                   | ParsedFrame rows \<Rightarrow>
                       (Inr (Some c), w\<lparr>heap := h[c := MetricsFrame (derive_rows rows)]\<rparr>)
                   | MetricsFrame rows \<Rightarrow>
                       (Inr (Some c),
                        w\<lparr>heap := h[c := MetricsFrame (derive_rows (map video_row.truncate rows))]\<rparr>))))"

text \<open>The three aggregate methods read the frame they are given; a frame without the
  derived columns has no \<open>engagement_rate\<close>.\<close>

definition metrics_rows :: "world \<Rightarrow> addr \<Rightarrow> py_error + derived_row list" where
  "metrics_rows w a =
     (case lookup (heap w) a of
        None \<Rightarrow> Inl DanglingReference
      | Some (MetricsFrame rows) \<Rightarrow> Inr rows
      | Some _ \<Rightarrow> Inl KeyError)"

datatype query =
    CalculateMetrics
  | GetSummaryMetrics addr
  | GetContentTypeAnalysis addr
  | GetTimePeriodAnalysis addr

datatype answer =
    Frame "addr option"
  | Summary summary_metrics
  | Stats "stats_row list"

definition run_query ::
  "(f64 list \<Rightarrow> nat list) \<Rightarrow> world \<Rightarrow> query \<Rightarrow> (py_error + answer) \<times> world" where
  "run_query argsort w q =
     (case q of
        CalculateMetrics \<Rightarrow>
          (map_sum id Frame (fst (calculate_metrics w)), snd (calculate_metrics w))
      | GetSummaryMetrics a \<Rightarrow>
          (map_sum id (\<lambda>rows. Summary (get_summary_metrics rows)) (metrics_rows w a), w)
      | GetContentTypeAnalysis a \<Rightarrow>
          (case metrics_rows w a of
             Inl e \<Rightarrow> (Inl e, w)
           | Inr rows \<Rightarrow> (map_sum id Stats (get_content_type_analysis argsort rows), w))
      | GetTimePeriodAnalysis a \<Rightarrow>
          (case metrics_rows w a of
             Inl e \<Rightarrow> (Inl e, w)
           | Inr rows \<Rightarrow> (map_sum id Stats (get_time_period_analysis argsort rows), w)))"

definition run_queries :: "(f64 list \<Rightarrow> nat list) \<Rightarrow> world \<Rightarrow> query list \<Rightarrow> world" where
  "run_queries argsort w qs = foldl (\<lambda>w q. snd (run_query argsort w q)) w qs"

definition stored_dataset :: "world \<Rightarrow> frame option" where
  "stored_dataset w = (case self_df w of None \<Rightarrow> None | Some a \<Rightarrow> lookup (heap w) a)"

definition returned_frame :: "world \<Rightarrow> py_error + addr option \<Rightarrow> py_error + frame option" where
  "returned_frame w r =
     (case r of
        Inl e \<Rightarrow> Inl e
      | Inr None \<Rightarrow> Inr None
      | Inr (Some a) \<Rightarrow> Inr (lookup (heap w) a))"

text \<open>What \<open>calculate_metrics\<close> returns, as a function of \<open>self.df\<close> and the frame it
  refers to.\<close>

definition metrics_of :: "world \<Rightarrow> py_error + frame option" where
  "metrics_of w =
     (case self_df w of
        None \<Rightarrow> Inr None
      | Some a \<Rightarrow>
          (case stored_dataset w of
             None \<Rightarrow> Inl DanglingReference
           | Some (RawFrame rows) \<Rightarrow> Inl AttributeError
           | Some (ParsedFrame rows) \<Rightarrow> Inr (Some (MetricsFrame (derive_rows rows)))
           | Some (MetricsFrame rows) \<Rightarrow>
               Inr (Some (MetricsFrame (derive_rows (map video_row.truncate rows))))))"

section \<open>Sample inputs\<close>

text \<open>A record uploaded on 2024-01-02 at the given hour, with the given identifier,
  content type, views and likes, and no comments or shares; and the frames of such
  records that the properties below are evaluated on.\<close>

definition sample_row :: "string \<Rightarrow> string \<Rightarrow> int \<Rightarrow> int \<Rightarrow> int \<Rightarrow> timestamp video_row" where
  "sample_row vid ct h v l =
     \<lparr>video_id = vid,
      upload_time = \<lparr>year = 2024, month = 1, day = 2, hour = h, minute = 0, second = 0\<rparr>,
      content_type = ct, duration_sec = 60, views = v, likes = l, comments = 0, shares = 0,
      completion_rate = 1 / 2, creator_id = ''C2001''\<rparr>"

definition mixed_rows :: "timestamp video_row list" where
  "mixed_rows =
     [sample_row ''V1'' ''a'' 9 10000 100, sample_row ''V2'' ''b'' 14 10000 300,
      sample_row ''V3'' ''a'' 9 30000 3000]"

definition four_groups :: "timestamp video_row list" where
  "four_groups =
     [sample_row ''V1'' ''a'' 9 10000 100, sample_row ''V2'' ''b'' 9 10000 100,
      sample_row ''V3'' ''c'' 9 10000 200, sample_row ''V4'' ''d'' 9 10000 200]"

definition hot_rows :: "timestamp video_row list" where
  "hot_rows = [sample_row ''V1'' ''a'' 9 30000 3000]"

definition three_rows :: "timestamp video_row list" where
  "three_rows =
     [sample_row ''V1'' ''a'' 9 30000 3000, sample_row ''V2'' ''a'' 9 10000 100,
      sample_row ''V3'' ''a'' 9 30000 2700]"



text \<open>A file system that holds the data file with one record, one without it, a parser
  of the record's timestamp and one that rejects every text; the worlds before the first
  load, after it, and after a second load that finds no file.\<close>

definition sample_raw_row :: "string video_row" where
  "sample_raw_row =
     \<lparr>video_id = ''V10000'', upload_time = ''2024-01-02 09:00:00'', content_type = ''a'',
      duration_sec = 60, views = 30000, likes = 3000, comments = 0, shares = 0,
      completion_rate = 1 / 2, creator_id = ''C2001''\<rparr>"

definition file_present :: "string \<Rightarrow> string video_row list option" where
  "file_present path = (if path = ''data/sample_data.csv'' then Some [sample_raw_row] else None)"

definition file_missing :: "string \<Rightarrow> string video_row list option" where
  "file_missing path = None"

definition sample_to_datetime :: "string \<Rightarrow> timestamp option" where
  "sample_to_datetime s =
     (if s = ''2024-01-02 09:00:00''
      then Some \<lparr>year = 2024, month = 1, day = 2, hour = 9, minute = 0, second = 0\<rparr>
      else None)"

definition unparsable :: "string \<Rightarrow> timestamp option" where
  "unparsable s = None"

definition world0 :: world where
  "world0 = init ''data/sample_data.csv'' []"

definition world1 :: world where
  "world1 = snd (load_data file_present sample_to_datetime world0)"

definition world2 :: world where
  "world2 = snd (load_data file_missing sample_to_datetime world1)"

section \<open>Properties\<close>

lemma labels_distinct:
  "distinct [label_morning, label_midday, label_afternoon, label_evening, label_late_night]"
  by (simp add: label_morning_def label_midday_def label_afternoon_def label_evening_def
      label_late_night_def)

subsection \<open>Evaluation\<close>

lemma floor_rat_numeral_div [simp]:
  "\<lfloor>numeral a / numeral b :: rat\<rfloor> = numeral a div numeral b"
  using floor_divide_of_int_eq [of "numeral a" "numeral b", where ?'a = rat] by simp

lemmas eval_defs = row_engagement_rate_def row_is_hot_def derive_row_def sample_row_def
  true_divide_def of_int64_def wrap64_def round_half_even_def Let_def

subsection \<open>Time periods\<close>

text \<open>
  C7. The bucketing is a total, non-overlapping partition of the hours 0 to 23: the hours
  6 to 11 are exactly those labelled morning, 12 and 13 midday, 14 to 17 afternoon, 18 to
  21 evening, and 22, 23 and 0 to 5 late night; the five labels are pairwise different
  strings, and every hour receives one of them.
\<close>

theorem time_period_partition:
  "{h. 0 \<le> h \<and> h \<le> 23 \<and> categorize_time_period h = label_morning} = {6..11} \<and>
   {h. 0 \<le> h \<and> h \<le> 23 \<and> categorize_time_period h = label_midday} = {12..13} \<and>
   {h. 0 \<le> h \<and> h \<le> 23 \<and> categorize_time_period h = label_afternoon} = {14..17} \<and>
   {h. 0 \<le> h \<and> h \<le> 23 \<and> categorize_time_period h = label_evening} = {18..21} \<and>
   {h. 0 \<le> h \<and> h \<le> 23 \<and> categorize_time_period h = label_late_night} = {0..5} \<union> {22..23} \<and>
   distinct [label_morning, label_midday, label_afternoon, label_evening, label_late_night] \<and>
   (\<forall>h. categorize_time_period h \<in>
      set [label_morning, label_midday, label_afternoon, label_evening, label_late_night])"
proof -
  note d = labels_distinct
  have m: "{h. 0 \<le> h \<and> h \<le> 23 \<and> categorize_time_period h = label_morning} = {6..11}"
    using d by (auto simp: categorize_time_period_def)
  have n: "{h. 0 \<le> h \<and> h \<le> 23 \<and> categorize_time_period h = label_midday} = {12..13}"
    using d by (auto simp: categorize_time_period_def)
  have a: "{h. 0 \<le> h \<and> h \<le> 23 \<and> categorize_time_period h = label_afternoon} = {14..17}"
    using d by (auto simp: categorize_time_period_def)
  have e: "{h. 0 \<le> h \<and> h \<le> 23 \<and> categorize_time_period h = label_evening} = {18..21}"
    using d by (auto simp: categorize_time_period_def)
  have l: "{h. 0 \<le> h \<and> h \<le> 23 \<and> categorize_time_period h = label_late_night} = {0..5} \<union> {22..23}"
    using d by (auto simp: categorize_time_period_def)
  have t: "\<forall>h. categorize_time_period h \<in>
      set [label_morning, label_midday, label_afternoon, label_evening, label_late_night]"
    by (simp add: categorize_time_period_def)
  from m n a e l d t show ?thesis by blast
qed

subsection \<open>Hot videos\<close>

lemma engagement_rate_derive_row: "engagement_rate (derive_row r) = row_engagement_rate r"
  by (simp add: derive_row_def)

lemma views_derive_row: "views (derive_row r) = views r"
  by (simp add: derive_row_def)

lemma is_hot_derive_row:
  "is_hot (derive_row r) = row_is_hot (row_engagement_rate r) (views r)"
  by (simp add: derive_row_def)

text \<open>
  C6. A derived record is hot exactly when its engagement rate is greater than 5 and its
  views are greater than 20000, both strictly: a record with engagement rate exactly 5.00
  is not hot (at 20000 views and at 40000 views), a record with exactly 20000 views is
  not hot even at engagement rate 10, and the record with 20001 views and engagement
  rate 5.01 is hot.
\<close>

theorem is_hot_strict_thresholds:
  "is_hot (derive_row r) =
     (fgt (engagement_rate (derive_row r)) (Fin 5) \<and> 20000 < views (derive_row r)) \<and>
   engagement_rate (derive_row (sample_row ''V1'' ''a'' 9 20000 1000)) = Fin 5 \<and>
   \<not> is_hot (derive_row (sample_row ''V1'' ''a'' 9 20000 1000)) \<and>
   engagement_rate (derive_row (sample_row ''V2'' ''a'' 9 40000 2000)) = Fin 5 \<and>
   \<not> is_hot (derive_row (sample_row ''V2'' ''a'' 9 40000 2000)) \<and>
   engagement_rate (derive_row (sample_row ''V3'' ''a'' 9 20000 2000)) = Fin 10 \<and>
   \<not> is_hot (derive_row (sample_row ''V3'' ''a'' 9 20000 2000)) \<and>
   engagement_rate (derive_row (sample_row ''V4'' ''a'' 9 20001 1002)) = Fin (501 / 100) \<and>
   is_hot (derive_row (sample_row ''V4'' ''a'' 9 20001 1002))"
proof -
  have g: "is_hot (derive_row r) =
     (fgt (engagement_rate (derive_row r)) (Fin 5) \<and> 20000 < views (derive_row r))"
    by (simp add: is_hot_derive_row engagement_rate_derive_row views_derive_row
        row_is_hot_def of_int64_def)
  have b1: "engagement_rate (derive_row (sample_row ''V1'' ''a'' 9 20000 1000)) = Fin 5"
    by (simp add: eval_defs)
  have b2: "\<not> is_hot (derive_row (sample_row ''V1'' ''a'' 9 20000 1000))"
    by (simp add: eval_defs)
  have b3: "engagement_rate (derive_row (sample_row ''V2'' ''a'' 9 40000 2000)) = Fin 5"
    by (simp add: eval_defs)
  have b4: "\<not> is_hot (derive_row (sample_row ''V2'' ''a'' 9 40000 2000))"
    by (simp add: eval_defs)
  have b5: "engagement_rate (derive_row (sample_row ''V3'' ''a'' 9 20000 2000)) = Fin 10"
    by (simp add: eval_defs)
  have b6: "\<not> is_hot (derive_row (sample_row ''V3'' ''a'' 9 20000 2000))"
    by (simp add: eval_defs)
  have b7: "engagement_rate (derive_row (sample_row ''V4'' ''a'' 9 20001 1002)) = Fin (501 / 100)"
    by (simp add: eval_defs)
  have b8: "is_hot (derive_row (sample_row ''V4'' ''a'' 9 20001 1002))"
    by (simp add: eval_defs)
  from g b1 b2 b3 b4 b5 b6 b7 b8 show ?thesis by blast
qed

subsection \<open>The two analyses\<close>

lemma those_map_Some: "those (map (\<lambda>x. Some (f x)) xs) = Some (map f xs)"
  by (induction xs) simp_all

lemma those_eq_Some: "those xs = Some ys \<Longrightarrow> xs = map Some ys"
  by (induction xs arbitrary: ys) (auto split: option.splits)

lemma asc_key_inj: "asc_key a = asc_key b \<longleftrightarrow> a = b"
  by (cases a; cases b) auto

lemma asc_key_sorts_before: "a \<noteq> NaN \<Longrightarrow> asc_key b \<le> asc_key a \<Longrightarrow> sorts_before a b"
  by (cases a; cases b) (auto simp: sorts_before_def)

lemma sorts_before_NaN: "sorts_before a NaN"
  by (simp add: sorts_before_def)

lemma float_column_length:
  assumes "float_column c rows = Some ks"
  shows "length ks = length rows"
proof -
  from assms have "map (\<lambda>row. float_cell (map_of row c)) rows = map Some ks"
    unfolding float_column_def by (rule those_eq_Some)
  then have "length (map (\<lambda>row. float_cell (map_of row c)) rows) = length (map Some ks)"
    by simp
  then show ?thesis by simp
qed

lemma float_column_nth:
  assumes "float_column c rows = Some ks" and "i < length rows"
  shows "float_cell (map_of (rows ! i) c) = Some (ks ! i)"
proof -
  from assms(1) have e: "map (\<lambda>row. float_cell (map_of row c)) rows = map Some ks"
    unfolding float_column_def by (rule those_eq_Some)
  have l: "length ks = length rows" using assms(1) by (rule float_column_length)
  have "map (\<lambda>row. float_cell (map_of row c)) rows ! i = map Some ks ! i"
    using e by simp
  with assms(2) l show ?thesis by simp
qed

lemma float_column_reindex:
  assumes "float_column c rows = Some ks" and "set idx \<subseteq> {0..<length rows}"
  shows "float_column c (map (\<lambda>i. rows ! i) idx) = Some (map (\<lambda>i. ks ! i) idx)"
proof -
  have "\<And>i. i \<in> set idx \<Longrightarrow> float_cell (map_of (rows ! i) c) = Some (ks ! i)"
    using assms(2) float_column_nth [OF assms(1)] by (auto simp: subset_iff)
  then have "map (\<lambda>row. float_cell (map_of row c)) (map (\<lambda>i. rows ! i) idx)
        = map (\<lambda>i. Some (ks ! i)) idx"
    by (induction idx) simp_all
  then have "those (map (\<lambda>row. float_cell (map_of row c)) (map (\<lambda>i. rows ! i) idx))
        = Some (map (\<lambda>i. ks ! i) idx)"
    by (simp only: those_map_Some)
  then show ?thesis
    unfolding float_column_def .
qed

lemma mset_reindex:
  assumes "mset idx = mset [0..<length rows]"
  shows "mset (map (\<lambda>i. rows ! i) idx) = mset rows"
proof -
  have "mset (map (\<lambda>i. rows ! i) idx) = image_mset (\<lambda>i. rows ! i) (mset idx)" by simp
  also have "\<dots> = image_mset (\<lambda>i. rows ! i) (mset [0..<length rows])" using assms by simp
  also have "\<dots> = mset (map (\<lambda>i. rows ! i) [0..<length rows])" by simp
  also have "\<dots> = mset rows" by (simp add: map_nth)
  finally show ?thesis .
qed

lemma mset_filter_partition:
  "mset (filter P xs) + mset (filter (\<lambda>x. \<not> P x) xs) = mset xs"
  by (induction xs) simp_all

lemma argsort_set:
  assumes "ascending_argsort argsort"
  shows "set (argsort vs) = {0..<length vs}"
proof -
  from assms have "mset (argsort vs) = mset [0..<length vs]"
    by (simp add: ascending_argsort_def)
  then have "set (argsort vs) = set [0..<length vs]" by (rule mset_eq_setD)
  then show ?thesis by simp
qed

subsection \<open>nargsort\<close>

lemma nargsort_unfold:
  "nargsort argsort False ks =
     rev (map (\<lambda>p. rev (filter (\<lambda>i. ks ! i \<noteq> NaN) [0..<length ks]) ! p)
            (argsort (map (\<lambda>i. ks ! i) (rev (filter (\<lambda>i. ks ! i \<noteq> NaN) [0..<length ks])))))
     @ filter (\<lambda>i. ks ! i = NaN) [0..<length ks]"
  by (simp add: nargsort_def Let_def rev_map)

lemma nargsort_mset:
  assumes "ascending_argsort argsort"
  shows "mset (nargsort argsort False ks) = mset [0..<length ks]"
proof -
  let ?ids = "rev (filter (\<lambda>i. ks ! i \<noteq> NaN) [0..<length ks])"
  let ?vals = "map (\<lambda>i. ks ! i) ?ids"
  have "mset (argsort ?vals) = mset [0..<length ?vals]"
    using assms by (simp add: ascending_argsort_def)
  then have "mset (argsort ?vals) = mset [0..<length ?ids]" by simp
  then have m: "mset (map (\<lambda>p. ?ids ! p) (argsort ?vals)) = mset ?ids" by (rule mset_reindex)
  have "mset (nargsort argsort False ks)
        = mset ?ids + mset (filter (\<lambda>i. ks ! i = NaN) [0..<length ks])"
    unfolding nargsort_unfold using m by simp
  also have "\<dots> = mset (filter (\<lambda>i. ks ! i \<noteq> NaN) [0..<length ks])
        + mset (filter (\<lambda>i. \<not> ks ! i \<noteq> NaN) [0..<length ks])" by simp
  also have "\<dots> = mset [0..<length ks]" by (rule mset_filter_partition)
  finally show ?thesis .
qed

lemma nargsort_descending:
  assumes "ascending_argsort argsort"
  shows "sorted_wrt (\<lambda>i j. sorts_before (ks ! i) (ks ! j)) (nargsort argsort False ks)"
proof -
  let ?ids = "rev (filter (\<lambda>i. ks ! i \<noteq> NaN) [0..<length ks])"
  let ?vals = "map (\<lambda>i. ks ! i) ?ids"
  let ?perm = "argsort ?vals"
  let ?nan = "filter (\<lambda>i. ks ! i = NaN) [0..<length ks]"
  have s: "set ?perm = {0..<length ?ids}"
    using argsort_set [OF assms, of ?vals] by simp
  have nn: "ks ! i \<noteq> NaN" if "i \<in> set ?ids" for i using that by simp
  have c: "sorted_wrt (\<lambda>p q. asc_key (?vals ! p) \<le> asc_key (?vals ! q)) ?perm"
    using assms by (simp add: ascending_argsort_def)
  have a: "sorted_wrt (\<lambda>p q. sorts_before (ks ! (?ids ! q)) (ks ! (?ids ! p))) ?perm"
  proof (rule sorted_wrt_mono_rel [OF _ c])
    fix p q
    assume p: "p \<in> set ?perm" and q: "q \<in> set ?perm"
      and le: "asc_key (?vals ! p) \<le> asc_key (?vals ! q)"
    from p s have pl: "p < length ?ids" by simp
    from q s have ql: "q < length ?ids" by simp
    have vp: "?vals ! p = ks ! (?ids ! p)" using pl by simp
    have vq: "?vals ! q = ks ! (?ids ! q)" using ql by simp
    have "?ids ! q \<in> set ?ids" using ql by (rule nth_mem)
    then have "ks ! (?ids ! q) \<noteq> NaN" by (rule nn)
    moreover have "asc_key (ks ! (?ids ! p)) \<le> asc_key (ks ! (?ids ! q))"
      using le unfolding vp vq .
    ultimately show "sorts_before (ks ! (?ids ! q)) (ks ! (?ids ! p))"
      by (rule asc_key_sorts_before)
  qed
  then have "sorted_wrt (\<lambda>x y. sorts_before (ks ! y) (ks ! x)) (map (\<lambda>p. ?ids ! p) ?perm)"
    by (simp add: sorted_wrt_map)
  then have 1: "sorted_wrt (\<lambda>x y. sorts_before (ks ! x) (ks ! y))
      (rev (map (\<lambda>p. ?ids ! p) ?perm))"
    by (simp add: sorted_wrt_rev)
  have n: "sorts_before (ks ! x) (ks ! y)" if "y \<in> set ?nan" for x y
    using that by (simp add: sorts_before_NaN)
  have "sorted_wrt (\<lambda>x y. True) ?nan" by simp
  then have 2: "sorted_wrt (\<lambda>x y. sorts_before (ks ! x) (ks ! y)) ?nan"
    by (rule sorted_wrt_mono_rel [rotated]) (rule n)
  from 1 2 n show ?thesis
    unfolding nargsort_unfold sorted_wrt_append by blast
qed

lemma sort_values_descending:
  assumes d: "ascending_argsort argsort" and k: "float_column c rows = Some ks"
  shows "\<exists>out ks'. sort_values argsort c False rows = Inr out \<and> mset out = mset rows \<and>
           float_column c out = Some ks' \<and> sorted_wrt sorts_before ks'"
proof -
  let ?idx = "nargsort argsort False ks"
  let ?out = "map (\<lambda>i. rows ! i) ?idx"
  have l: "length ks = length rows" using k by (rule float_column_length)
  have m: "mset ?idx = mset [0..<length rows]" using nargsort_mset [OF d, of ks] l by simp
  then have "set ?idx = set [0..<length rows]" by (rule mset_eq_setD)
  then have s: "set ?idx \<subseteq> {0..<length rows}" by simp
  have o: "sorted_wrt (\<lambda>i j. sorts_before (ks ! i) (ks ! j)) ?idx"
    using d by (rule nargsort_descending)
  have 1: "sort_values argsort c False rows = Inr ?out" by (simp add: sort_values_def k)
  have 2: "mset ?out = mset rows" using m by (rule mset_reindex)
  have 3: "float_column c ?out = Some (map (\<lambda>i. ks ! i) ?idx)"
    using k s by (rule float_column_reindex)
  have 4: "sorted_wrt sorts_before (map (\<lambda>i. ks ! i) ?idx)"
    using o by (simp add: sorted_wrt_map)
  from 1 2 3 4 show ?thesis by blast
qed

lemma sort_key_contract:
  "sorted_wrt (\<lambda>i j. asc_key (vs ! i) \<le> asc_key (vs ! j)) (sort_key (\<lambda>i. asc_key (vs ! i)) xs)"
proof -
  have "sorted (map (\<lambda>i. asc_key (vs ! i)) (sort_key (\<lambda>i. asc_key (vs ! i)) xs))"
    by (rule sorted_sort_key)
  then show ?thesis by (simp add: sorted_map)
qed

lemma stable_argsort_ascending: "ascending_argsort stable_argsort"
  unfolding ascending_argsort_def stable_argsort_def by (simp add: sort_key_contract)

lemma reversing_argsort_ascending: "ascending_argsort reversing_argsort"
  unfolding ascending_argsort_def reversing_argsort_def by (simp add: sort_key_contract)

lemma float_column_content_stats:
  "float_column ''engagement_rate'' (content_stats df) =
     Some (map (\<lambda>k. round2 (nanmean (map engagement_rate (group_rows content_type k df))))
            (group_keys content_type df))"
  by (simp add: float_column_def content_stats_def content_type_row_def float_cell_def
      comp_def Let_def those_map_Some)

lemma float_column_time_stats:
  "float_column ''engagement_rate'' (time_stats df) =
     Some (map (\<lambda>k. round2 (nanmean (map engagement_rate (group_rows time_period k df))))
            (group_keys time_period df))"
  by (simp add: float_column_def time_stats_def time_period_row_def float_cell_def
      comp_def those_map_Some)

lemma group_keys_distinct: "distinct (group_keys key df)"
  by (simp add: group_keys_def)

lemma group_keys_set: "set (group_keys key df) = key ` set df"
  by (simp add: group_keys_def)

lemma group_keys_sorted: "sorted (group_keys key df)"
  by (simp add: group_keys_def)

lemma group_rows_nonempty: "k \<in> set (group_keys key df) \<Longrightarrow> group_rows key k df \<noteq> []"
  by (auto simp: group_keys_set group_rows_def filter_empty_conv)

text \<open>
  C5, as the code has it. Whatever positions numpy's \<open>argsort\<close> returns for equal keys,
  both analyses return a frame that holds exactly the rows of the grouped frame and
  whose \<open>engagement_rate\<close> column descends, with \<open>nan\<close> last. The order of groups with
  equal \<open>engagement_rate\<close> is not fixed by the source: it is whatever the default sort
  of the library yields.
\<close>

theorem analyses_sorted_descending:
  assumes "ascending_argsort argsort"
  shows "(\<exists>out ks. get_content_type_analysis argsort df = Inr out \<and>
            mset out = mset (content_stats df) \<and>
            float_column ''engagement_rate'' out = Some ks \<and> sorted_wrt sorts_before ks) \<and>
         (\<exists>out ks. get_time_period_analysis argsort df = Inr out \<and>
            mset out = mset (time_stats df) \<and>
            float_column ''engagement_rate'' out = Some ks \<and> sorted_wrt sorts_before ks)"
proof
  show "\<exists>out ks. get_content_type_analysis argsort df = Inr out \<and>
            mset out = mset (content_stats df) \<and>
            float_column ''engagement_rate'' out = Some ks \<and> sorted_wrt sorts_before ks"
    unfolding get_content_type_analysis_def
    using assms float_column_content_stats by (rule sort_values_descending)
  show "\<exists>out ks. get_time_period_analysis argsort df = Inr out \<and>
            mset out = mset (time_stats df) \<and>
            float_column ''engagement_rate'' out = Some ks \<and> sorted_wrt sorts_before ks"
    unfolding get_time_period_analysis_def
    using assms float_column_time_stats by (rule sort_values_descending)
qed

text \<open>With a stable \<open>argsort\<close> the groups with equal \<open>engagement_rate\<close> do keep the order
  of the grouped frame: the claim about ties is one about the library's sort.\<close>

lemma float_cell_Some: "float_cell x = Some k \<longleftrightarrow> x = Some (FCell k)"
  by (auto simp: float_cell_def split: option.splits cell.splits)

lemma nargsort_stable_ties:
  "filter (\<lambda>i. ks ! i = x) (nargsort stable_argsort False ks)
     = filter (\<lambda>i. ks ! i = x) [0..<length ks]"
proof -
  let ?Q = "\<lambda>i. ks ! i = x"
  let ?nn = "filter (\<lambda>i. ks ! i \<noteq> NaN) [0..<length ks]"
  let ?nan = "filter (\<lambda>i. ks ! i = NaN) [0..<length ks]"
  let ?ids = "rev ?nn"
  let ?vals = "map (\<lambda>i. ks ! i) ?ids"
  let ?f = "\<lambda>p. asc_key (?vals ! p)"
  let ?perm = "sort_key ?f [0..<length ?vals]"
  have q: "?Q (?ids ! p) \<longleftrightarrow> ?f p = asc_key x" if "p < length ?ids" for p
    using that by (simp add: asc_key_inj)
  have "filter ?Q (map (\<lambda>p. ?ids ! p) ?perm)
        = map (\<lambda>p. ?ids ! p) (filter (\<lambda>p. ?Q (?ids ! p)) ?perm)"
    by (simp add: filter_map comp_def)
  also have "\<dots> = map (\<lambda>p. ?ids ! p) (filter (\<lambda>p. ?f p = asc_key x) ?perm)"
    using q by (intro arg_cong [where f = "map (\<lambda>p. ?ids ! p)"] filter_cong) auto
  also have "\<dots> = map (\<lambda>p. ?ids ! p) (filter (\<lambda>p. ?f p = asc_key x) [0..<length ?vals])"
    by (simp only: sort_key_stable)
  also have "\<dots> = map (\<lambda>p. ?ids ! p) (filter (\<lambda>p. ?Q (?ids ! p)) [0..<length ?vals])"
    using q by (intro arg_cong [where f = "map (\<lambda>p. ?ids ! p)"] filter_cong) auto
  also have "\<dots> = filter ?Q (map (\<lambda>p. ?ids ! p) [0..<length ?ids])"
    by (simp add: filter_map comp_def)
  also have "\<dots> = filter ?Q ?ids" by (simp only: map_nth)
  finally have a: "filter ?Q (map (\<lambda>p. ?ids ! p) ?perm) = filter ?Q ?ids" .
  have "filter ?Q (nargsort stable_argsort False ks)
        = rev (filter ?Q (map (\<lambda>p. ?ids ! p) ?perm)) @ filter ?Q ?nan"
    unfolding nargsort_unfold stable_argsort_def by (simp only: filter_append rev_filter)
  also have "\<dots> = filter ?Q ?nn @ filter ?Q ?nan"
    unfolding a by (simp only: rev_filter rev_rev_ident)
  also have "\<dots> = filter ?Q [0..<length ks]"
  proof (cases "x = NaN")
    case True
    then show ?thesis by (simp add: conj_commute cong: conj_cong)
  next
    case False
    then have "filter ?Q ?nn = filter ?Q [0..<length ks]"
      by (auto intro: filter_cong)
    moreover from False have "filter ?Q ?nan = []" by (auto simp: filter_empty_conv)
    ultimately show ?thesis by simp
  qed
  finally show ?thesis .
qed

lemma stable_sort_keeps_ties:
  assumes k: "float_column c rows = Some ks"
  shows "filter (\<lambda>row. map_of row c = Some (FCell x))
           (map (\<lambda>i. rows ! i) (nargsort stable_argsort False ks))
         = filter (\<lambda>row. map_of row c = Some (FCell x)) rows"
proof -
  let ?P = "\<lambda>row. map_of row c = Some (FCell x)"
  let ?idx = "nargsort stable_argsort False ks"
  have l: "length ks = length rows" using k by (rule float_column_length)
  have p: "?P (rows ! i) \<longleftrightarrow> ks ! i = x" if "i < length rows" for i
  proof -
    have "float_cell (map_of (rows ! i) c) = Some (ks ! i)"
      using k that by (rule float_column_nth)
    then have "map_of (rows ! i) c = Some (FCell (ks ! i))" by (simp add: float_cell_Some)
    then show ?thesis by simp
  qed
  have "mset ?idx = mset [0..<length ks]"
    using stable_argsort_ascending by (rule nargsort_mset)
  then have "set ?idx = set [0..<length ks]" by (rule mset_eq_setD)
  then have s: "set ?idx = {0..<length rows}" using l by simp
  have "filter ?P (map (\<lambda>i. rows ! i) ?idx)
        = map (\<lambda>i. rows ! i) (filter (\<lambda>i. ?P (rows ! i)) ?idx)"
    by (simp add: filter_map comp_def)
  also have "\<dots> = map (\<lambda>i. rows ! i) (filter (\<lambda>i. ks ! i = x) ?idx)"
    using s p by (intro arg_cong [where f = "map (\<lambda>i. rows ! i)"] filter_cong) auto
  also have "\<dots> = map (\<lambda>i. rows ! i) (filter (\<lambda>i. ks ! i = x) [0..<length ks])"
    by (simp only: nargsort_stable_ties)
  also have "\<dots> = map (\<lambda>i. rows ! i) (filter (\<lambda>i. ?P (rows ! i)) [0..<length ks])"
    using l p by (intro arg_cong [where f = "map (\<lambda>i. rows ! i)"] filter_cong) auto
  also have "\<dots> = filter ?P (map (\<lambda>i. rows ! i) [0..<length rows])"
    by (simp add: filter_map comp_def l)
  also have "\<dots> = filter ?P rows" by (simp add: map_nth)
  finally show ?thesis .
qed

lemma stable_analysis_keeps_ties:
  "\<exists>out. get_content_type_analysis stable_argsort df = Inr out \<and>
         ties_in_group_order (content_stats df) out"
proof -
  let ?ks = "map (\<lambda>k. round2 (nanmean (map engagement_rate (group_rows content_type k df))))
            (group_keys content_type df)"
  let ?out = "map (\<lambda>i. content_stats df ! i) (nargsort stable_argsort False ?ks)"
  have k: "float_column ''engagement_rate'' (content_stats df) = Some ?ks"
    by (rule float_column_content_stats)
  have o: "get_content_type_analysis stable_argsort df = Inr ?out"
    by (simp add: get_content_type_analysis_def sort_values_def k)
  have "ties_in_group_order (content_stats df) ?out"
    unfolding ties_in_group_order_def
  proof
    fix x assume "x \<in> set (map (\<lambda>row. map_of row ''engagement_rate'') (content_stats df))"
    then obtain i where i: "i < length (content_stats df)"
      and x: "x = map_of (content_stats df ! i) ''engagement_rate''"
      by (auto simp: in_set_conv_nth)
    have "float_cell (map_of (content_stats df ! i) ''engagement_rate'') = Some (?ks ! i)"
      using k i by (rule float_column_nth)
    then have "x = Some (FCell (?ks ! i))" unfolding x by (simp add: float_cell_Some)
    then show "filter (\<lambda>row. map_of row ''engagement_rate'' = x) ?out =
        filter (\<lambda>row. map_of row ''engagement_rate'' = x) (content_stats df)"
      using stable_sort_keeps_ties [OF k] by simp
  qed
  with o show ?thesis by blast
qed

lemmas stats_defs = content_stats_def time_stats_def group_keys_def group_rows_def
  content_type_row_def time_period_row_def derive_rows_def nanmean_def mean_int_def
  count_true_def

lemmas label_defs = label_morning_def label_midday_def label_afternoon_def label_evening_def
  label_late_night_def categorize_time_period_def

lemmas sort_defs = sort_values_def float_column_def float_cell_def nargsort_def Let_def
  upt_rec

lemma content_stats_four_groups:
  "content_stats (derive_rows four_groups) =
     [[(''content_type'', SCell ''a''), (''views'', FCell (Fin 10000)),
       (''engagement_rate'', FCell (Fin 1)), (''video_count'', ICell 1),
       (''hot_videos'', ICell 0), (''hot_rate'', FCell (Fin 0))],
      [(''content_type'', SCell ''b''), (''views'', FCell (Fin 10000)),
       (''engagement_rate'', FCell (Fin 1)), (''video_count'', ICell 1),
       (''hot_videos'', ICell 0), (''hot_rate'', FCell (Fin 0))],
      [(''content_type'', SCell ''c''), (''views'', FCell (Fin 10000)),
       (''engagement_rate'', FCell (Fin 2)), (''video_count'', ICell 1),
       (''hot_videos'', ICell 0), (''hot_rate'', FCell (Fin 0))],
      [(''content_type'', SCell ''d''), (''views'', FCell (Fin 10000)),
       (''engagement_rate'', FCell (Fin 2)), (''video_count'', ICell 1),
       (''hot_videos'', ICell 0), (''hot_rate'', FCell (Fin 0))]]"
  by (simp add: stats_defs four_groups_def eval_defs)

lemma nargsort_reversing_four:
  "nargsort reversing_argsort False [Fin 1, Fin 1, Fin 2, Fin 2] = [3, 2, 1, 0]"
  by (simp add: nargsort_def Let_def upt_rec reversing_argsort_def)

lemma nargsort_stable_four:
  "nargsort stable_argsort False [Fin 1, Fin 1, Fin 2, Fin 2] = [2, 3, 0, 1]"
  by (simp add: nargsort_def Let_def upt_rec stable_argsort_def)

text \<open>
  C5 as stated fails: the source asks for no stable sort. Four content types \<open>a\<close>, \<open>b\<close>,
  \<open>c\<close>, \<open>d\<close> with one record each have the mean engagement rates 1.00, 1.00, 2.00 and
  2.00. With an \<open>argsort\<close> that meets numpy's contract and puts the later of two equal
  keys first, the analysis returns \<open>d\<close>, \<open>c\<close>, \<open>b\<close>, \<open>a\<close>: both pairs of groups with
  equal engagement rate stand against the group order \<open>a\<close>, \<open>b\<close>, \<open>c\<close>, \<open>d\<close>.
\<close>

theorem tie_order_counterexample:
  "ascending_argsort reversing_argsort \<and>
   content_stats (derive_rows four_groups) =
     [[(''content_type'', SCell ''a''), (''views'', FCell (Fin 10000)),
       (''engagement_rate'', FCell (Fin 1)), (''video_count'', ICell 1),
       (''hot_videos'', ICell 0), (''hot_rate'', FCell (Fin 0))],
      [(''content_type'', SCell ''b''), (''views'', FCell (Fin 10000)),
       (''engagement_rate'', FCell (Fin 1)), (''video_count'', ICell 1),
       (''hot_videos'', ICell 0), (''hot_rate'', FCell (Fin 0))],
      [(''content_type'', SCell ''c''), (''views'', FCell (Fin 10000)),
       (''engagement_rate'', FCell (Fin 2)), (''video_count'', ICell 1),
       (''hot_videos'', ICell 0), (''hot_rate'', FCell (Fin 0))],
      [(''content_type'', SCell ''d''), (''views'', FCell (Fin 10000)),
       (''engagement_rate'', FCell (Fin 2)), (''video_count'', ICell 1),
       (''hot_videos'', ICell 0), (''hot_rate'', FCell (Fin 0))]] \<and>
   get_content_type_analysis reversing_argsort (derive_rows four_groups) =
     Inr [[(''content_type'', SCell ''d''), (''views'', FCell (Fin 10000)),
           (''engagement_rate'', FCell (Fin 2)), (''video_count'', ICell 1),
           (''hot_videos'', ICell 0), (''hot_rate'', FCell (Fin 0))],
          [(''content_type'', SCell ''c''), (''views'', FCell (Fin 10000)),
           (''engagement_rate'', FCell (Fin 2)), (''video_count'', ICell 1),
           (''hot_videos'', ICell 0), (''hot_rate'', FCell (Fin 0))],
          [(''content_type'', SCell ''b''), (''views'', FCell (Fin 10000)),
           (''engagement_rate'', FCell (Fin 1)), (''video_count'', ICell 1),
           (''hot_videos'', ICell 0), (''hot_rate'', FCell (Fin 0))],
          [(''content_type'', SCell ''a''), (''views'', FCell (Fin 10000)),
           (''engagement_rate'', FCell (Fin 1)), (''video_count'', ICell 1),
           (''hot_videos'', ICell 0), (''hot_rate'', FCell (Fin 0))]] \<and>
   \<not> ties_in_group_order (content_stats (derive_rows four_groups))
       [[(''content_type'', SCell ''d''), (''views'', FCell (Fin 10000)),
         (''engagement_rate'', FCell (Fin 2)), (''video_count'', ICell 1),
         (''hot_videos'', ICell 0), (''hot_rate'', FCell (Fin 0))],
        [(''content_type'', SCell ''c''), (''views'', FCell (Fin 10000)),
         (''engagement_rate'', FCell (Fin 2)), (''video_count'', ICell 1),
         (''hot_videos'', ICell 0), (''hot_rate'', FCell (Fin 0))],
        [(''content_type'', SCell ''b''), (''views'', FCell (Fin 10000)),
         (''engagement_rate'', FCell (Fin 1)), (''video_count'', ICell 1),
         (''hot_videos'', ICell 0), (''hot_rate'', FCell (Fin 0))],
        [(''content_type'', SCell ''a''), (''views'', FCell (Fin 10000)),
         (''engagement_rate'', FCell (Fin 1)), (''video_count'', ICell 1),
         (''hot_videos'', ICell 0), (''hot_rate'', FCell (Fin 0))]]"
proof -
  have 1: "ascending_argsort reversing_argsort" by (rule reversing_argsort_ascending)
  have 3: "get_content_type_analysis reversing_argsort (derive_rows four_groups) =
     Inr [[(''content_type'', SCell ''d''), (''views'', FCell (Fin 10000)),
           (''engagement_rate'', FCell (Fin 2)), (''video_count'', ICell 1),
           (''hot_videos'', ICell 0), (''hot_rate'', FCell (Fin 0))],
          [(''content_type'', SCell ''c''), (''views'', FCell (Fin 10000)),
           (''engagement_rate'', FCell (Fin 2)), (''video_count'', ICell 1),
           (''hot_videos'', ICell 0), (''hot_rate'', FCell (Fin 0))],
          [(''content_type'', SCell ''b''), (''views'', FCell (Fin 10000)),
           (''engagement_rate'', FCell (Fin 1)), (''video_count'', ICell 1),
           (''hot_videos'', ICell 0), (''hot_rate'', FCell (Fin 0))],
          [(''content_type'', SCell ''a''), (''views'', FCell (Fin 10000)),
           (''engagement_rate'', FCell (Fin 1)), (''video_count'', ICell 1),
           (''hot_videos'', ICell 0), (''hot_rate'', FCell (Fin 0))]]"
    by (simp add: get_content_type_analysis_def sort_values_def float_column_def
        float_cell_def content_stats_four_groups nargsort_reversing_four)
  have 4: "\<not> ties_in_group_order (content_stats (derive_rows four_groups))
       [[(''content_type'', SCell ''d''), (''views'', FCell (Fin 10000)),
         (''engagement_rate'', FCell (Fin 2)), (''video_count'', ICell 1),
         (''hot_videos'', ICell 0), (''hot_rate'', FCell (Fin 0))],
        [(''content_type'', SCell ''c''), (''views'', FCell (Fin 10000)),
         (''engagement_rate'', FCell (Fin 2)), (''video_count'', ICell 1),
         (''hot_videos'', ICell 0), (''hot_rate'', FCell (Fin 0))],
        [(''content_type'', SCell ''b''), (''views'', FCell (Fin 10000)),
         (''engagement_rate'', FCell (Fin 1)), (''video_count'', ICell 1),
         (''hot_videos'', ICell 0), (''hot_rate'', FCell (Fin 0))],
        [(''content_type'', SCell ''a''), (''views'', FCell (Fin 10000)),
         (''engagement_rate'', FCell (Fin 1)), (''video_count'', ICell 1),
         (''hot_videos'', ICell 0), (''hot_rate'', FCell (Fin 0))]]"
    by (simp add: ties_in_group_order_def content_stats_four_groups)
  from 1 content_stats_four_groups 3 4 show ?thesis by blast
qed

text \<open>The stable sort meets the contract of \<open>argsort\<close>; the frame here has two content
  types and two time periods.\<close>

theorem analyses_sorted_descending_witness:
  "ascending_argsort stable_argsort \<and>
   (\<exists>out ks. get_content_type_analysis stable_argsort (derive_rows mixed_rows) = Inr out \<and>
      mset out = mset (content_stats (derive_rows mixed_rows)) \<and>
      float_column ''engagement_rate'' out = Some ks \<and> sorted_wrt sorts_before ks) \<and>
   (\<exists>out ks. get_time_period_analysis stable_argsort (derive_rows mixed_rows) = Inr out \<and>
      mset out = mset (time_stats (derive_rows mixed_rows)) \<and>
      float_column ''engagement_rate'' out = Some ks \<and> sorted_wrt sorts_before ks)"
  using stable_argsort_ascending
    analyses_sorted_descending [OF stable_argsort_ascending, of "derive_rows mixed_rows"]
  by simp

lemma time_analysis_mixed_rows:
  "get_time_period_analysis stable_argsort (derive_rows mixed_rows) =
     Inr [[(''time_period'', SCell label_morning), (''views'', FCell (Fin 20000)),
           (''engagement_rate'', FCell (Fin (11 / 2))), (''video_count'', ICell 2)],
          [(''time_period'', SCell label_afternoon), (''views'', FCell (Fin 10000)),
           (''engagement_rate'', FCell (Fin 3)), (''video_count'', ICell 1)]]"
  by (simp add: get_time_period_analysis_def sort_defs
      stats_defs mixed_rows_def eval_defs label_defs stable_argsort_def)

text \<open>
  C3 as stated fails: on a frame with one hot video the content-type analysis has the
  columns \<open>hot_videos\<close> and \<open>hot_rate\<close>, and the time-period analysis has neither.
\<close>

theorem time_period_analysis_shape_counterexample:
  "get_content_type_analysis stable_argsort (derive_rows hot_rows) =
     Inr [[(''content_type'', SCell ''a''), (''views'', FCell (Fin 30000)),
           (''engagement_rate'', FCell (Fin 10)), (''video_count'', ICell 1),
           (''hot_videos'', ICell 1), (''hot_rate'', FCell (Fin 100))]] \<and>
   get_time_period_analysis stable_argsort (derive_rows hot_rows) =
     Inr [[(''time_period'', SCell label_morning), (''views'', FCell (Fin 30000)),
           (''engagement_rate'', FCell (Fin 10)), (''video_count'', ICell 1)]] \<and>
   map_of [(''time_period'', SCell label_morning), (''views'', FCell (Fin 30000)),
           (''engagement_rate'', FCell (Fin 10)), (''video_count'', ICell 1)] ''hot_videos'' = None \<and>
   map_of [(''time_period'', SCell label_morning), (''views'', FCell (Fin 30000)),
           (''engagement_rate'', FCell (Fin 10)), (''video_count'', ICell 1)] ''hot_rate'' = None"
proof -
  have 1: "get_content_type_analysis stable_argsort (derive_rows hot_rows) =
     Inr [[(''content_type'', SCell ''a''), (''views'', FCell (Fin 30000)),
           (''engagement_rate'', FCell (Fin 10)), (''video_count'', ICell 1),
           (''hot_videos'', ICell 1), (''hot_rate'', FCell (Fin 100))]]"
    by (simp add: get_content_type_analysis_def sort_defs
        stats_defs hot_rows_def eval_defs stable_argsort_def)
  have 2: "get_time_period_analysis stable_argsort (derive_rows hot_rows) =
     Inr [[(''time_period'', SCell label_morning), (''views'', FCell (Fin 30000)),
           (''engagement_rate'', FCell (Fin 10)), (''video_count'', ICell 1)]]"
    by (simp add: get_time_period_analysis_def sort_defs
        stats_defs hot_rows_def eval_defs stable_argsort_def categorize_time_period_def)
  from 1 2 show ?thesis by simp
qed

text \<open>
  C3, as the code has it. For every frame the time-period analysis returns one row per
  time period that occurs, holding the period, the mean views and the mean engagement
  rate of the group, both rounded to two decimals, and the number of its records; it has
  no hot count and no hot rate.
\<close>

theorem time_period_analysis_columns:
  assumes "ascending_argsort argsort"
  shows "\<exists>out. get_time_period_analysis argsort df = Inr out \<and>
     mset out = mset (map (\<lambda>k.
         [(''time_period'', SCell k),
          (''views'', FCell (round2 (mean_int (map views (group_rows time_period k df))))),
          (''engagement_rate'',
             FCell (round2 (nanmean (map engagement_rate (group_rows time_period k df))))),
          (''video_count'', ICell (int (length (group_rows time_period k df))))])
        (group_keys time_period df)) \<and>
     distinct (group_keys time_period df) \<and>
     set (group_keys time_period df) = time_period ` set df \<and>
     (\<forall>row \<in> set out.
        map fst row = [''time_period'', ''views'', ''engagement_rate'', ''video_count''])"
proof -
  from sort_values_descending [OF assms float_column_time_stats]
  obtain out where o: "get_time_period_analysis argsort df = Inr out"
    and m: "mset out = mset (time_stats df)"
    unfolding get_time_period_analysis_def by blast
  have s: "set out = set (time_stats df)" using m by (rule mset_eq_setD)
  have c: "\<forall>row \<in> set out.
        map fst row = [''time_period'', ''views'', ''engagement_rate'', ''video_count'']"
    unfolding s by (auto simp: time_stats_def time_period_row_def)
  have m': "mset out = mset (map (\<lambda>k.
         [(''time_period'', SCell k),
          (''views'', FCell (round2 (mean_int (map views (group_rows time_period k df))))),
          (''engagement_rate'',
             FCell (round2 (nanmean (map engagement_rate (group_rows time_period k df))))),
          (''video_count'', ICell (int (length (group_rows time_period k df))))])
        (group_keys time_period df))"
    using m by (simp add: time_stats_def time_period_row_def)
  from o m' c group_keys_distinct [of time_period df] group_keys_set [of time_period df]
  show ?thesis by blast
qed

text \<open>The time-period analysis of a frame with two time periods, under the stable
  sort.\<close>

theorem time_period_analysis_columns_witness:
  "ascending_argsort stable_argsort \<and>
   (\<exists>out. get_time_period_analysis stable_argsort (derive_rows mixed_rows) = Inr out \<and>
     mset out = mset (map (\<lambda>k.
         [(''time_period'', SCell k),
          (''views'', FCell (round2 (mean_int
             (map views (group_rows time_period k (derive_rows mixed_rows)))))),
          (''engagement_rate'', FCell (round2 (nanmean
             (map engagement_rate (group_rows time_period k (derive_rows mixed_rows)))))),
          (''video_count'',
             ICell (int (length (group_rows time_period k (derive_rows mixed_rows)))))])
        (group_keys time_period (derive_rows mixed_rows))) \<and>
     distinct (group_keys time_period (derive_rows mixed_rows)) \<and>
     set (group_keys time_period (derive_rows mixed_rows)) =
       time_period ` set (derive_rows mixed_rows) \<and>
     (\<forall>row \<in> set out.
        map fst row = [''time_period'', ''views'', ''engagement_rate'', ''video_count'']))"
  using stable_argsort_ascending
    time_period_analysis_columns [OF stable_argsort_ascending, of "derive_rows mixed_rows"]
  by simp

subsection \<open>The summary\<close>

text \<open>
  C2, at three records with engagement rates 10.00, 1.00 and 9.00, two of them hot. The
  summary holds the record count 3, the sum of views 70000, the hot count 2 and the hot
  rate 66.67 as claimed; its mean engagement rate is 20/3, the mean as computed, where
  the claim has the mean rounded to two decimals, 6.67.
\<close>

theorem summary_mean_unrounded:
  "get_summary_metrics (derive_rows three_rows) =
     \<lparr>total_videos = 3, total_views = 70000, avg_engagement_rate = Fin (20 / 3),
      hot_videos_count = 2, hot_videos_rate = Fin (6667 / 100)\<rparr> \<and>
   round2 (Fin (20 / 3)) = Fin (667 / 100)"
proof -
  have 1: "map engagement_rate (derive_rows three_rows) = [Fin 10, Fin 1, Fin 9]"
    by (simp add: derive_rows_def three_rows_def eval_defs)
  have 2: "map is_hot (derive_rows three_rows) = [True, False, True]"
    by (simp add: derive_rows_def three_rows_def eval_defs)
  have 3: "map views (derive_rows three_rows) = [30000, 10000, 30000]"
    by (simp add: derive_rows_def three_rows_def eval_defs)
  have 4: "length (derive_rows three_rows) = 3"
    by (simp add: derive_rows_def three_rows_def)
  have 5: "nanmean [Fin 10, Fin 1, Fin 9] = Fin (20 / 3)"
    by (simp add: nanmean_def of_int64_def)
  have 6: "round2 (fmul (true_divide 2 3) (of_int64 100)) = Fin (6667 / 100)"
    by (simp add: true_divide_def of_int64_def round_half_even_def Let_def)
  have 7: "round2 (Fin (20 / 3)) = Fin (667 / 100)"
    by (simp add: round_half_even_def Let_def)
  have "get_summary_metrics (derive_rows three_rows) =
     \<lparr>total_videos = 3, total_views = 70000, avg_engagement_rate = Fin (20 / 3),
      hot_videos_count = 2, hot_videos_rate = Fin (6667 / 100)\<rparr>"
    by (simp add: get_summary_metrics_def Let_def 1 2 3 4 5 6 count_true_def wrap64_def)
  with 7 show ?thesis by simp
qed

subsection \<open>Division by zero\<close>

lemma row_engagement_rate_zero_views:
  "row_engagement_rate (r\<lparr>views := 0\<rparr>) =
     (if 0 < wrap64 (likes r + comments r + shares r) then PInf
      else if wrap64 (likes r + comments r + shares r) < 0 then NInf else NaN)"
  by (simp add: row_engagement_rate_def true_divide_def of_int64_def)

text \<open>
  C4 as stated fails. A record with 0 views and 5 likes is kept and its engagement rate is
  \<open>inf\<close>; the hot rate of the summary of an empty frame is \<open>nan\<close>. In both places the
  division by zero is carried out.
\<close>

theorem zero_division_counterexample:
  "views (sample_row ''V1'' ''a'' 9 0 5) = 0 \<and>
   derive_rows [sample_row ''V1'' ''a'' 9 0 5] = [derive_row (sample_row ''V1'' ''a'' 9 0 5)] \<and>
   engagement_rate (derive_row (sample_row ''V1'' ''a'' 9 0 5)) = PInf \<and>
   \<not> is_finite (engagement_rate (derive_row (sample_row ''V1'' ''a'' 9 0 5))) \<and>
   total_videos (get_summary_metrics (derive_rows [])) = 0 \<and>
   hot_videos_rate (get_summary_metrics (derive_rows [])) = NaN \<and>
   \<not> is_finite (hot_videos_rate (get_summary_metrics (derive_rows [])))"
proof -
  have 1: "engagement_rate (derive_row (sample_row ''V1'' ''a'' 9 0 5)) = PInf"
    by (simp add: eval_defs)
  have 2: "hot_videos_rate (get_summary_metrics (derive_rows [])) = NaN"
    by (simp add: get_summary_metrics_def derive_rows_def count_true_def true_divide_def
        of_int64_def Let_def)
  have 3: "total_videos (get_summary_metrics (derive_rows [])) = 0"
    by (simp add: get_summary_metrics_def derive_rows_def Let_def)
  have 4: "views (sample_row ''V1'' ''a'' 9 0 5) = 0" by (simp add: sample_row_def)
  from 1 2 3 4 show ?thesis by (simp add: is_finite_def derive_rows_def)
qed

text \<open>
  C4, as the code has it. No division is guarded and none raises. For a record with 0
  views the engagement rate is the float quotient by zero: \<open>inf\<close>, \<open>-inf\<close> or \<open>nan\<close> as
  likes + comments + shares, added as int64, is positive, negative or zero; the record
  is kept and is not hot. For an empty frame the summary has count 0, and its mean engagement rate and its
  hot rate are \<open>nan\<close>.
\<close>

theorem zero_division_unguarded:
  "engagement_rate (derive_row (r\<lparr>views := 0\<rparr>)) =
     (if 0 < wrap64 (likes r + comments r + shares r) then PInf
      else if wrap64 (likes r + comments r + shares r) < 0 then NInf else NaN) \<and>
   \<not> is_finite (engagement_rate (derive_row (r\<lparr>views := 0\<rparr>))) \<and>
   \<not> is_hot (derive_row (r\<lparr>views := 0\<rparr>)) \<and>
   length (derive_rows rows) = length rows \<and>
   total_videos (get_summary_metrics []) = 0 \<and>
   avg_engagement_rate (get_summary_metrics []) = NaN \<and>
   hot_videos_rate (get_summary_metrics []) = NaN"
proof -
  have 1: "engagement_rate (derive_row (r\<lparr>views := 0\<rparr>)) =
     (if 0 < wrap64 (likes r + comments r + shares r) then PInf
      else if wrap64 (likes r + comments r + shares r) < 0 then NInf else NaN)"
    by (simp only: engagement_rate_derive_row row_engagement_rate_zero_views)
  have 2: "\<not> is_finite (engagement_rate (derive_row (r\<lparr>views := 0\<rparr>)))"
    unfolding 1 by (simp add: is_finite_def)
  have 3: "\<not> is_hot (derive_row (r\<lparr>views := 0\<rparr>))"
    by (simp add: is_hot_derive_row row_is_hot_def)
  have 4: "length (derive_rows rows) = length rows" by (simp add: derive_rows_def)
  have 5: "total_videos (get_summary_metrics []) = 0"
    by (simp add: get_summary_metrics_def Let_def)
  have 6: "avg_engagement_rate (get_summary_metrics []) = NaN"
    by (simp add: get_summary_metrics_def nanmean_def Let_def)
  have 7: "hot_videos_rate (get_summary_metrics []) = NaN"
    by (simp add: get_summary_metrics_def count_true_def true_divide_def of_int64_def Let_def)
  from 1 2 3 4 5 6 7 show ?thesis by blast
qed

subsection \<open>The ranking\<close>













subsection \<open>Loading\<close>

lemma load_data_read_failure:
  "read_csv (data_path w) = None \<Longrightarrow> load_data read_csv to_datetime w = (False, w)"
  by (simp add: load_data_def)

lemma load_data_parse_failure:
  assumes "read_csv (data_path w) = Some rows"
    and "those (map (\<lambda>r. to_datetime (upload_time r)) rows) = None"
  shows "load_data read_csv to_datetime w =
           (False, w\<lparr>heap := heap w @ [RawFrame rows], self_df := Some (length (heap w))\<rparr>)"
  using assms by (simp add: load_data_def alloc_def)

lemma load_data_success:
  assumes "read_csv (data_path w) = Some rows"
    and "those (map (\<lambda>r. to_datetime (upload_time r)) rows) = Some ts"
  shows "load_data read_csv to_datetime w =
           (True, w\<lparr>heap := heap w @ [ParsedFrame (map2 with_upload_time rows ts)],
                    self_df := Some (length (heap w))\<rparr>)"
  using assms by (simp add: load_data_def alloc_def)

lemma world1_eq:
  "world1 = \<lparr>heap = [ParsedFrame [sample_row ''V10000'' ''a'' 9 30000 3000]],
             data_path = ''data/sample_data.csv'', self_df = Some 0\<rparr>"
  by (simp add: world1_def world0_def init_def load_data_def alloc_def file_present_def
      sample_raw_row_def sample_to_datetime_def with_upload_time_def sample_row_def)

lemma world2_eq: "world2 = world1"
  by (simp add: world2_def load_data_def file_missing_def)

text \<open>
  C1 as stated fails. After a load that succeeds, a second load that finds no file
  returns \<open>False\<close> and leaves \<open>self.df\<close> as it was, so the engine is not back in the
  unloaded state: \<open>calculate_metrics\<close> still returns the derived records of the first
  load.
\<close>

theorem failed_load_counterexample:
  "fst (load_data file_present sample_to_datetime world0) \<and>
   world1 = snd (load_data file_present sample_to_datetime world0) \<and>
   \<not> fst (load_data file_missing sample_to_datetime world1) \<and>
   world2 = snd (load_data file_missing sample_to_datetime world1) \<and>
   stored_dataset world2 = Some (ParsedFrame [sample_row ''V10000'' ''a'' 9 30000 3000]) \<and>
   returned_frame (snd (calculate_metrics world2)) (fst (calculate_metrics world2)) =
     Inr (Some (MetricsFrame [derive_row (sample_row ''V10000'' ''a'' 9 30000 3000)]))"
proof -
  have 1: "fst (load_data file_present sample_to_datetime world0)"
    by (simp add: world0_def init_def load_data_def alloc_def file_present_def
        sample_raw_row_def sample_to_datetime_def)
  have 2: "\<not> fst (load_data file_missing sample_to_datetime world1)"
    by (simp add: load_data_def file_missing_def)
  have 3: "stored_dataset world2 = Some (ParsedFrame [sample_row ''V10000'' ''a'' 9 30000 3000])"
    by (simp add: world2_eq world1_eq stored_dataset_def lookup_def)
  have 4: "returned_frame (snd (calculate_metrics world2)) (fst (calculate_metrics world2)) =
     Inr (Some (MetricsFrame [derive_row (sample_row ''V10000'' ''a'' 9 30000 3000)]))"
    by (simp add: world2_eq world1_eq calculate_metrics_def lookup_def alloc_def
        returned_frame_def derive_rows_def)
  from 1 2 3 4 show ?thesis by (simp add: world1_def world2_def)
qed

text \<open>
  C1, as the code has it. Every load that fails, in reading the file or in parsing a
  timestamp, returns \<open>False\<close>. When reading the file fails, the engine's state is exactly
  what it was before the call: an unloaded engine stays unloaded, and an engine that was
  loaded keeps its dataset. A load returns \<open>True\<close> only when both steps succeed, and then
  the stored dataset is the file's rows with their timestamps parsed.
\<close>

theorem failed_load:
  "(read_csv (data_path w) = None \<longrightarrow>
      \<not> fst (load_data read_csv to_datetime w) \<and>
      snd (load_data read_csv to_datetime w) = w \<and>
      stored_dataset (snd (load_data read_csv to_datetime w)) = stored_dataset w) \<and>
   (\<forall>rows. read_csv (data_path w) = Some rows \<and>
      those (map (\<lambda>r. to_datetime (upload_time r)) rows) = None \<longrightarrow>
      \<not> fst (load_data read_csv to_datetime w)) \<and>
   (fst (load_data read_csv to_datetime w) \<longrightarrow>
      (\<exists>rows ts. read_csv (data_path w) = Some rows \<and>
         those (map (\<lambda>r. to_datetime (upload_time r)) rows) = Some ts \<and>
         stored_dataset (snd (load_data read_csv to_datetime w)) =
           Some (ParsedFrame (map2 with_upload_time rows ts))))"
proof (intro conjI allI impI)
  assume "read_csv (data_path w) = None"
  then have e: "load_data read_csv to_datetime w = (False, w)" by (rule load_data_read_failure)
  show "\<not> fst (load_data read_csv to_datetime w)" by (simp add: e)
  show "snd (load_data read_csv to_datetime w) = w" by (simp add: e)
  show "stored_dataset (snd (load_data read_csv to_datetime w)) = stored_dataset w"
    by (simp add: e)
next
  fix rows
  assume "read_csv (data_path w) = Some rows \<and>
      those (map (\<lambda>r. to_datetime (upload_time r)) rows) = None"
  then show "\<not> fst (load_data read_csv to_datetime w)"
    by (simp add: load_data_parse_failure)
next
  assume s: "fst (load_data read_csv to_datetime w)"
  then obtain rows where r: "read_csv (data_path w) = Some rows"
    by (cases "read_csv (data_path w)") (simp_all add: load_data_read_failure)
  from s r obtain ts where t: "those (map (\<lambda>r. to_datetime (upload_time r)) rows) = Some ts"
    by (cases "those (map (\<lambda>r. to_datetime (upload_time r)) rows)")
      (simp_all add: load_data_parse_failure)
  have "stored_dataset (snd (load_data read_csv to_datetime w)) =
           Some (ParsedFrame (map2 with_upload_time rows ts))"
    using r t by (simp add: load_data_def alloc_def stored_dataset_def lookup_def)
  with r t show "\<exists>rows ts. read_csv (data_path w) = Some rows \<and>
         those (map (\<lambda>r. to_datetime (upload_time r)) rows) = Some ts \<and>
         stored_dataset (snd (load_data read_csv to_datetime w)) =
           Some (ParsedFrame (map2 with_upload_time rows ts))"
    by blast
qed

text \<open>The three cases on the sample file system: the file is missing (after a load and
  before any), a timestamp does not parse, and the load succeeds.\<close>

theorem failed_load_witness:
  "file_missing (data_path world1) = None \<and>
   \<not> fst (load_data file_missing sample_to_datetime world1) \<and>
   snd (load_data file_missing sample_to_datetime world1) = world1 \<and>
   file_missing (data_path world0) = None \<and>
   stored_dataset (snd (load_data file_missing sample_to_datetime world0)) = None \<and>
   file_present (data_path world0) = Some [sample_raw_row] \<and>
   those (map (\<lambda>r. unparsable (upload_time r)) [sample_raw_row]) = None \<and>
   \<not> fst (load_data file_present unparsable world0) \<and>
   fst (load_data file_present sample_to_datetime world0)"
proof -
  have m1: "file_missing (data_path world1) = None" by (simp add: file_missing_def)
  have m0: "file_missing (data_path world0) = None" by (simp add: file_missing_def)
  have p: "file_present (data_path world0) = Some [sample_raw_row]"
    by (simp add: file_present_def world0_def init_def)
  have u: "those (map (\<lambda>r. unparsable (upload_time r)) [sample_raw_row]) = None"
    by (simp add: unparsable_def)
  have s0: "stored_dataset world0 = None" by (simp add: stored_dataset_def world0_def init_def)
  have ok: "fst (load_data file_present sample_to_datetime world0)"
    by (simp add: world0_def init_def load_data_def alloc_def file_present_def
        sample_raw_row_def sample_to_datetime_def)
  from failed_load [of file_missing world1 sample_to_datetime] m1
  have a: "\<not> fst (load_data file_missing sample_to_datetime world1) \<and>
      snd (load_data file_missing sample_to_datetime world1) = world1" by blast
  from failed_load [of file_missing world0 sample_to_datetime] m0 s0
  have b: "stored_dataset (snd (load_data file_missing sample_to_datetime world0)) = None"
    by simp
  from failed_load [of file_present world0 unparsable] p u
  have c: "\<not> fst (load_data file_present unparsable world0)" by blast
  from m1 a m0 b p u c ok show ?thesis by blast
qed

subsection \<open>Queries\<close>

lemma calculate_metrics_self_df: "self_df (snd (calculate_metrics w)) = self_df w"
  by (simp add: calculate_metrics_def alloc_def split: option.splits frame.splits)

lemma calculate_metrics_data_path: "data_path (snd (calculate_metrics w)) = data_path w"
  by (simp add: calculate_metrics_def alloc_def split: option.splits frame.splits)

lemma calculate_metrics_heap:
  "take (length (heap w)) (heap (snd (calculate_metrics w))) = heap w"
  by (simp add: calculate_metrics_def alloc_def split: option.splits frame.splits)

lemma run_query_self_df: "self_df (snd (run_query argsort w q)) = self_df w"
  by (cases q) (simp_all add: run_query_def calculate_metrics_self_df split: prod.splits sum.splits)

lemma run_query_data_path: "data_path (snd (run_query argsort w q)) = data_path w"
  by (cases q) (simp_all add: run_query_def calculate_metrics_data_path split: prod.splits sum.splits)

lemma run_query_heap: "take (length (heap w)) (heap (snd (run_query argsort w q))) = heap w"
  by (cases q) (simp_all add: run_query_def calculate_metrics_heap split: prod.splits sum.splits)

lemma take_heap_length: "take n h' = h \<Longrightarrow> n = length h \<Longrightarrow> length h \<le> length h'"
  by (metis length_take min.cobounded1 min.commute)

lemma prefix_lookup:
  assumes "take (length h) h' = h" and "a < length h"
  shows "lookup h' a = lookup h a"
proof -
  have l: "length h \<le> length h'" using assms(1) by (rule take_heap_length) simp
  have "h' ! a = take (length h) h' ! a" using assms(2) by simp
  then have "h' ! a = h ! a" using assms(1) by simp
  with l assms(2) show ?thesis by (simp add: lookup_def)
qed

lemma calculate_metrics_stored:
  "stored_dataset (snd (calculate_metrics w)) = stored_dataset w"
proof (cases "self_df w")
  case None
  then show ?thesis by (simp add: calculate_metrics_def)
next
  case (Some a)
  show ?thesis
  proof (cases "a < length (heap w)")
    case True
    have "lookup (heap (snd (calculate_metrics w))) a = lookup (heap w) a"
      using calculate_metrics_heap True by (rule prefix_lookup)
    then show ?thesis
      by (simp add: stored_dataset_def calculate_metrics_self_df Some)
  next
    case False
    then show ?thesis by (simp add: calculate_metrics_def Some lookup_def)
  qed
qed

lemma run_query_stored: "stored_dataset (snd (run_query argsort w q)) = stored_dataset w"
  by (cases q) (simp_all add: run_query_def calculate_metrics_stored split: prod.splits sum.splits)

lemma run_queries_Cons:
  "run_queries argsort w (q # qs) = run_queries argsort (snd (run_query argsort w q)) qs"
  by (simp add: run_queries_def)

lemma run_queries_Nil: "run_queries argsort w [] = w"
  by (simp add: run_queries_def)

lemma run_queries_self_df: "self_df (run_queries argsort w qs) = self_df w"
  by (induction qs arbitrary: w) (simp_all add: run_queries_Nil run_queries_Cons run_query_self_df)

lemma run_queries_data_path: "data_path (run_queries argsort w qs) = data_path w"
  by (induction qs arbitrary: w)
    (simp_all add: run_queries_Nil run_queries_Cons run_query_data_path)

lemma run_queries_stored: "stored_dataset (run_queries argsort w qs) = stored_dataset w"
  by (induction qs arbitrary: w) (simp_all add: run_queries_Nil run_queries_Cons run_query_stored)

lemma run_queries_heap: "take (length (heap w)) (heap (run_queries argsort w qs)) = heap w"
proof (induction qs arbitrary: w)
  case Nil
  show ?case by (simp add: run_queries_Nil)
next
  case (Cons q qs)
  let ?w1 = "snd (run_query argsort w q)"
  let ?w2 = "run_queries argsort ?w1 qs"
  have 1: "take (length (heap w)) (heap ?w1) = heap w" by (rule run_query_heap)
  have 2: "take (length (heap ?w1)) (heap ?w2) = heap ?w1" by (rule Cons.IH)
  have l: "length (heap w) \<le> length (heap ?w1)" using 1 by (rule take_heap_length) simp
  have "take (length (heap w)) (heap ?w2)
        = take (length (heap w)) (take (length (heap ?w1)) (heap ?w2))"
    using l by (simp add: min.absorb1)
  also have "\<dots> = heap w" unfolding 2 by (rule 1)
  finally show ?case by (simp add: run_queries_Cons)
qed

lemma calculate_metrics_result:
  "returned_frame (snd (calculate_metrics w)) (fst (calculate_metrics w)) = metrics_of w"
  by (simp add: metrics_of_def calculate_metrics_def returned_frame_def stored_dataset_def
      alloc_def lookup_def split: option.splits frame.splits)

lemma calculate_metrics_fresh:
  "(case fst (calculate_metrics w) of
      Inr (Some c) \<Rightarrow> length (heap w) \<le> c \<and> self_df w \<noteq> Some c
    | _ \<Rightarrow> True)"
  by (auto simp: calculate_metrics_def alloc_def lookup_def split: option.splits frame.splits)

lemma metrics_of_cong:
  "self_df w' = self_df w \<Longrightarrow> stored_dataset w' = stored_dataset w \<Longrightarrow> metrics_of w' = metrics_of w"
  by (auto simp: metrics_of_def split: option.splits)

text \<open>
  C9. What \<open>calculate_metrics\<close> returns is a function of the loaded dataset alone
  (\<open>metrics_of\<close>): a second call, directly after the first or after any sequence of
  queries, returns a frame with the same records as the first.
\<close>

theorem calculate_metrics_deterministic:
  "returned_frame (snd (calculate_metrics w)) (fst (calculate_metrics w)) = metrics_of w \<and>
   returned_frame
     (snd (calculate_metrics (run_queries argsort (snd (calculate_metrics w)) qs)))
     (fst (calculate_metrics (run_queries argsort (snd (calculate_metrics w)) qs)))
   = returned_frame (snd (calculate_metrics w)) (fst (calculate_metrics w)) \<and>
   returned_frame (snd (calculate_metrics (snd (calculate_metrics w))))
     (fst (calculate_metrics (snd (calculate_metrics w))))
   = returned_frame (snd (calculate_metrics w)) (fst (calculate_metrics w))"
proof -
  let ?w1 = "snd (calculate_metrics w)"
  let ?w2 = "run_queries argsort ?w1 qs"
  have a: "metrics_of ?w1 = metrics_of w"
    by (rule metrics_of_cong) (rule calculate_metrics_self_df, rule calculate_metrics_stored)
  have "metrics_of ?w2 = metrics_of ?w1"
    by (rule metrics_of_cong) (rule run_queries_self_df, rule run_queries_stored)
  with a have b: "metrics_of ?w2 = metrics_of w" by simp
  from a b show ?thesis by (simp add: calculate_metrics_result)
qed

text \<open>
  C10. No sequence of queries changes the engine: \<open>self.df\<close> and \<open>data_path\<close> are as before,
  every frame that existed before is unchanged, and so the stored dataset is the same.
  The frame that \<open>calculate_metrics\<close> fills with the derived columns is a copy at a new
  address, never the frame \<open>self.df\<close> refers to.
\<close>

theorem queries_preserve_dataset:
  "self_df (run_queries argsort w qs) = self_df w \<and>
   data_path (run_queries argsort w qs) = data_path w \<and>
   take (length (heap w)) (heap (run_queries argsort w qs)) = heap w \<and>
   stored_dataset (run_queries argsort w qs) = stored_dataset w \<and>
   (case fst (calculate_metrics w) of
      Inr (Some c) \<Rightarrow> length (heap w) \<le> c \<and> self_df w \<noteq> Some c
    | _ \<Rightarrow> True)"
  using run_queries_self_df [of argsort w qs] run_queries_data_path [of argsort w qs]
    run_queries_heap [of w argsort qs] run_queries_stored [of argsort w qs]
    calculate_metrics_fresh [of w]
  by simp

subsection \<open>Queries on the sample world\<close>

lemma metrics_of_world1:
  "metrics_of world1 =
     Inr (Some (MetricsFrame [derive_row (sample_row ''V10000'' ''a'' 9 30000 3000)]))"
  by (simp add: world1_eq metrics_of_def stored_dataset_def lookup_def derive_rows_def)

lemma calculate_metrics_world1:
  "calculate_metrics world1 =
     (Inr (Some 1),
      \<lparr>heap = [ParsedFrame [sample_row ''V10000'' ''a'' 9 30000 3000],
               MetricsFrame [derive_row (sample_row ''V10000'' ''a'' 9 30000 3000)]],
       data_path = ''data/sample_data.csv'', self_df = Some 0\<rparr>)"
  by (simp add: world1_eq calculate_metrics_def lookup_def alloc_def derive_rows_def)

text \<open>On the world after the sample load the first call returns the derived record, and
  so does a call that follows three further queries.\<close>

theorem calculate_metrics_deterministic_witness:
  "returned_frame (snd (calculate_metrics world1)) (fst (calculate_metrics world1)) =
     Inr (Some (MetricsFrame [derive_row (sample_row ''V10000'' ''a'' 9 30000 3000)])) \<and>
   returned_frame
     (snd (calculate_metrics (run_queries stable_argsort (snd (calculate_metrics world1))
        [GetSummaryMetrics 1, CalculateMetrics, GetTimePeriodAnalysis 1])))
     (fst (calculate_metrics (run_queries stable_argsort (snd (calculate_metrics world1))
        [GetSummaryMetrics 1, CalculateMetrics, GetTimePeriodAnalysis 1]))) =
     Inr (Some (MetricsFrame [derive_row (sample_row ''V10000'' ''a'' 9 30000 3000)]))"
  using calculate_metrics_deterministic [of world1 stable_argsort
      "[GetSummaryMetrics 1, CalculateMetrics, GetTimePeriodAnalysis 1]"]
  by (simp add: metrics_of_world1)

text \<open>On the world after the sample load: the derived frame is at the new address 1,
  the summary of it is an answer and not an error, and after five queries the stored
  dataset is the loaded one.\<close>

theorem queries_preserve_dataset_witness:
  "stored_dataset world1 = Some (ParsedFrame [sample_row ''V10000'' ''a'' 9 30000 3000]) \<and>
   fst (calculate_metrics world1) = Inr (Some 1) \<and>
   self_df world1 = Some 0 \<and>
   fst (run_query stable_argsort (snd (calculate_metrics world1)) (GetSummaryMetrics 1)) =
     Inr (Summary \<lparr>total_videos = 1, total_views = 30000, avg_engagement_rate = Fin 10,
                    hot_videos_count = 1, hot_videos_rate = Fin 100\<rparr>) \<and>
   stored_dataset (run_queries stable_argsort world1
      [CalculateMetrics, GetSummaryMetrics 1, GetContentTypeAnalysis 1,
       GetTimePeriodAnalysis 1, CalculateMetrics]) =
     Some (ParsedFrame [sample_row ''V10000'' ''a'' 9 30000 3000])"
proof -
  have 1: "stored_dataset world1 = Some (ParsedFrame [sample_row ''V10000'' ''a'' 9 30000 3000])"
    by (simp add: world1_eq stored_dataset_def lookup_def)
  have 2: "fst (calculate_metrics world1) = Inr (Some 1)"
    by (simp add: calculate_metrics_world1)
  have 3: "self_df world1 = Some 0" by (simp add: world1_eq)
  have 4: "get_summary_metrics [derive_row (sample_row ''V10000'' ''a'' 9 30000 3000)] =
      \<lparr>total_videos = 1, total_views = 30000, avg_engagement_rate = Fin 10,
       hot_videos_count = 1, hot_videos_rate = Fin 100\<rparr>"
    by (simp add: get_summary_metrics_def nanmean_def count_true_def eval_defs)
  have 5: "fst (run_query stable_argsort (snd (calculate_metrics world1)) (GetSummaryMetrics 1)) =
     Inr (Summary \<lparr>total_videos = 1, total_views = 30000, avg_engagement_rate = Fin 10,
                    hot_videos_count = 1, hot_videos_rate = Fin 100\<rparr>)"
    by (simp add: run_query_def metrics_rows_def lookup_def calculate_metrics_world1 4)
  from queries_preserve_dataset [of stable_argsort world1
      "[CalculateMetrics, GetSummaryMetrics 1, GetContentTypeAnalysis 1,
        GetTimePeriodAnalysis 1, CalculateMetrics]"]
  have 6: "stored_dataset (run_queries stable_argsort world1
      [CalculateMetrics, GetSummaryMetrics 1, GetContentTypeAnalysis 1,
       GetTimePeriodAnalysis 1, CalculateMetrics]) = stored_dataset world1"
    by blast
  from 1 2 3 5 6 show ?thesis by simp
qed

end
